theory Spec2Isabelle
  imports Complex_Main
begin

section \<open>Outlook mail server: token cache and Graph request dispatcher\<close>

text \<open>
  A shallow embedding of \<^verbatim>\<open>get_access_token\<close> and \<^verbatim>\<open>make_graph_request\<close> of
  \<^verbatim>\<open>src/outlook_server.py\<close>. The two coroutines read and write two module globals
  (the token cache), read three module constants (the credentials), read the clock and
  talk to two HTTP endpoints. In the model the cache is passed in and returned, the
  credentials are a record, and the clock and the endpoints are a record of the
  environment (\<open>world\<close>). Every network call a function makes is appended to a list
  that it returns, so that "no network call" is the empty list. An exception is the
  \<open>Inl\<close> side of the result. The functions of the Python runtime that the code
  relies on and that have no short definition (upper-casing of Unicode strings, the
  rounding arithmetic of floats) are a parameter (\<open>runtime\<close>): what is proved holds for
  every such runtime, CPython's among them.
\<close>

subsection \<open>Python values\<close>

text \<open>
  A Python float: a finite double, written as the real number it stands for (both zeros
  are \<open>Finite 0\<close>), an infinity or a NaN.
\<close>

datatype pyfloat = Finite real | PosInf | NegInf | NaN

text \<open>The comparison \<^verbatim>\<open><\<close> of two floats: exact, and false when either is a NaN.\<close>

fun float_lt :: "pyfloat \<Rightarrow> pyfloat \<Rightarrow> bool" where
  "float_lt (Finite a) (Finite b) = (a < b)"
| "float_lt (Finite a) PosInf = True"
| "float_lt NegInf (Finite b) = True"
| "float_lt NegInf PosInf = True"
| "float_lt _ _ = False"

text \<open>The truth value of a float: false for zero only.\<close>

fun float_truthy :: "pyfloat \<Rightarrow> bool" where
  "float_truthy (Finite x) = (x \<noteq> 0)"
| "float_truthy _ = True"

text \<open>
  The values that \<^verbatim>\<open>response.json()\<close> can return, which are also the values the cache
  can come to hold. \<open>JNull\<close> is Python's \<^verbatim>\<open>None\<close>. A number without fraction or exponent
  decodes to an int of any size, any other to a float (the decoder also accepts
  \<^verbatim>\<open>NaN\<close> and \<^verbatim>\<open>Infinity\<close>). A \<open>JObj\<close> is a dict, written as its list of items (one
  item per key). A Python string is written as its characters' bytes.
\<close>

datatype json =
    JNull
  | JBool bool
  | JInt int
  | JFloat pyfloat
  | JStr string
  | JArr "json list"
  | JObj "(string \<times> json) list"

text \<open>Python's truth value of an object, as \<^verbatim>\<open>if x and ...\<close> tests it.\<close>

fun truthy :: "json \<Rightarrow> bool" where
  "truthy JNull = False"
| "truthy (JBool b) = b"
| "truthy (JInt i) = (i \<noteq> 0)"
| "truthy (JFloat x) = float_truthy x"
| "truthy (JStr s) = (s \<noteq> [])"
| "truthy (JArr xs) = (xs \<noteq> [])"
| "truthy (JObj kv) = (kv \<noteq> [])"

text \<open>\<^verbatim>\<open>d.get(key, default)\<close> on a dict.\<close>

definition dict_get :: "(string \<times> json) list \<Rightarrow> string \<Rightarrow> json \<Rightarrow> json" where
  "dict_get kv k d = (case map_of kv k of None \<Rightarrow> d | Some v \<Rightarrow> v)"

text \<open>The decimal digits of a number, as an f-string formats an int.\<close>

fun str_nat :: "nat \<Rightarrow> string" where
  "str_nat n =
     (if n < 10 then [char_of (48 + n)] else str_nat (n div 10) @ [char_of (48 + n mod 10)])"

declare str_nat.simps [simp del]

subsection \<open>The Python runtime\<close>

text \<open>
  What the code uses of the runtime without this theory defining it:
  \<^item> \<open>str_upper\<close> is \<^verbatim>\<open>str.upper()\<close>, which applies the Unicode case mapping;
  \<^item> \<open>float_add\<close> and \<open>float_sub\<close> are \<^verbatim>\<open>+\<close> and \<^verbatim>\<open>-\<close> on two floats, which round to
    the nearest double and never raise;
  \<^item> \<open>float_of_int\<close> is the conversion of an int operand in mixed arithmetic, which rounds
    and raises an OverflowError (\<open>None\<close> here) for an int beyond the range of a double.
\<close>

record runtime =
  str_upper :: "string \<Rightarrow> string"
  float_add :: "pyfloat \<Rightarrow> pyfloat \<Rightarrow> pyfloat"
  float_sub :: "pyfloat \<Rightarrow> pyfloat \<Rightarrow> pyfloat"
  float_of_int :: "int \<Rightarrow> pyfloat option"

subsection \<open>Configuration, cache, HTTP\<close>

text \<open>The module constants read from the environment at import.\<close>

record config =
  TENANT_ID :: string
  CLIENT_ID :: string
  CLIENT_SECRET :: string

text \<open>
  The module globals \<^verbatim>\<open>_access_token\<close> and \<^verbatim>\<open>_token_expiry\<close>. The token is whatever
  the token endpoint's JSON held under \<^verbatim>\<open>"access_token"\<close>; the expiry is \<^verbatim>\<open>None\<close> or a
  float.
\<close>

record cache =
  access_token :: json
  token_expiry :: "pyfloat option"

definition initial_cache :: cache where
  "initial_cache = \<lparr>access_token = JNull, token_expiry = None\<rparr>"

text \<open>
  An httpx response: its status code, \<^verbatim>\<open>response.text\<close>, and what \<^verbatim>\<open>response.json()\<close>
  returns (\<open>None\<close> when it raises a decode error).
\<close>

record response =
  status_code :: nat
  resp_text :: string
  resp_json :: "json option"

text \<open>
  httpx's \<^verbatim>\<open>raise_for_status()\<close> raises an HTTPStatusError unless the status is a
  2xx one.
\<close>

definition is_success :: "response \<Rightarrow> bool" where
  "is_success r = (200 \<le> status_code r \<and> status_code r \<le> 299)"

text \<open>The client and server error classes of HTTP status codes.\<close>

definition is_error :: "response \<Rightarrow> bool" where
  "is_error r = (400 \<le> status_code r \<and> status_code r \<le> 599)"

text \<open>An HTTP call answers with a response or fails in transport (a timeout, say).\<close>

datatype outcome = Responded response | Failed string

text \<open>The form post to the identity provider.\<close>

record token_request =
  token_url :: string
  form_data :: "(string \<times> string) list"
  token_timeout :: nat

text \<open>
  A call on the httpx client against the Graph API: which client function is called
  (\<^verbatim>\<open>get\<close>, \<^verbatim>\<open>post\<close>, \<^verbatim>\<open>patch\<close>, \<^verbatim>\<open>delete\<close>, named by its HTTP verb), the URL, the two
  headers (the token that \<^verbatim>\<open>f"Bearer {token}"\<close> formats, and the content type), the
  \<^verbatim>\<open>json=\<close> and \<^verbatim>\<open>params=\<close> arguments (\<open>None\<close> when not passed or passed as \<^verbatim>\<open>None\<close>),
  and the timeout.
\<close>

record graph_request =
  verb :: string
  url :: string
  bearer :: json
  content_type :: string
  json_body :: "json option"
  params :: "(string \<times> string) list option"
  timeout :: nat

datatype net_call = TokenExchange token_request | GraphCall graph_request

fun is_graph_call :: "net_call \<Rightarrow> bool" where
  "is_graph_call (GraphCall _) = True"
| "is_graph_call (TokenExchange _) = False"

text \<open>
  The environment of one call: \<^verbatim>\<open>datetime.now().timestamp()\<close> as read at the cache
  check (line 45) and as read after the exchange (line 67), and the two endpoints.
\<close>

record world =
  now_check :: pyfloat
  now_store :: pyfloat
  token_endpoint :: "token_request \<Rightarrow> outcome"
  graph_endpoint :: "graph_request \<Rightarrow> outcome"

datatype error =
    PyException string
  | ValueError string
  | HTTPStatusError response
  | TransportError string
  | JSONDecodeError
  | KeyError string
  | TypeError
  | OverflowError

type_synonym 'a result = "(error + 'a) \<times> cache \<times> net_call list"

subsection \<open>The token manager\<close>

text \<open>
  The guard of the fast path:
  \<^verbatim>\<open>_access_token and _token_expiry and datetime.now().timestamp() < _token_expiry\<close>.
\<close>

definition token_usable :: "cache \<Rightarrow> pyfloat \<Rightarrow> bool" where
  "token_usable c now =
     (truthy (access_token c) \<and>
      (case token_expiry c of None \<Rightarrow> False | Some e \<Rightarrow> float_truthy e \<and> float_lt now e))"

definition credentials_missing :: "config \<Rightarrow> bool" where
  "credentials_missing cfg = (TENANT_ID cfg = [] \<or> CLIENT_ID cfg = [] \<or> CLIENT_SECRET cfg = [])"

definition token_post :: "config \<Rightarrow> token_request" where
  "token_post cfg =
     \<lparr>token_url = ''https://login.microsoftonline.com/'' @ TENANT_ID cfg @ ''/oauth2/v2.0/token'',
      form_data = [(''client_id'', CLIENT_ID cfg),
                   (''client_secret'', CLIENT_SECRET cfg),
                   (''scope'', ''https://graph.microsoft.com/.default''),
                   (''grant_type'', ''client_credentials'')],
      token_timeout = 30\<rparr>"

text \<open>
  The right operand of \<^verbatim>\<open>datetime.now().timestamp() + expires_in\<close> as a float: a float
  is taken as it is, an int (a bool is one) is converted, which raises an OverflowError when
  it is too large, and any other value raises a TypeError.
\<close>

fun as_float :: "runtime \<Rightarrow> json \<Rightarrow> error + pyfloat" where
  "as_float rt (JFloat x) = Inr x"
| "as_float rt (JInt i) =
     (case float_of_int rt i of None \<Rightarrow> Inl OverflowError | Some x \<Rightarrow> Inr x)"
| "as_float rt (JBool b) =
     (case float_of_int rt (if b then 1 else 0) of None \<Rightarrow> Inl OverflowError | Some x \<Rightarrow> Inr x)"
| "as_float rt _ = Inl TypeError"

text \<open>
  Lines 63 to 69, on the decoded body of a 2xx answer. The token is stored before
  \<^verbatim>\<open>expires_in\<close> is read, so an error in the arithmetic leaves the new token beside
  the old expiry. The expiry is \<^verbatim>\<open>now + expires_in - 60\<close> in float arithmetic (the
  int 60 is the float 60.0).
\<close>

definition store_token :: "runtime \<Rightarrow> world \<Rightarrow> cache \<Rightarrow> json \<Rightarrow> (error + json) \<times> cache" where
  "store_token rt w c token_data =
     (case token_data of
        JObj kv \<Rightarrow>
          (case map_of kv ''access_token'' of
             None \<Rightarrow> (Inl (KeyError ''access_token''), c)
           | Some tok \<Rightarrow>
               (let c1 = c\<lparr>access_token := tok\<rparr>;
                    expires_in = dict_get kv ''expires_in'' (JInt 3600)
                in case as_float rt expires_in of
                     Inl e \<Rightarrow> (Inl e, c1)
                   | Inr x \<Rightarrow>
                       (Inr tok,
                        c1\<lparr>token_expiry :=
                             Some (float_sub rt (float_add rt (now_store w) x) (Finite 60))\<rparr>)))
      | _ \<Rightarrow> (Inl TypeError, c))"

definition get_access_token :: "runtime \<Rightarrow> config \<Rightarrow> world \<Rightarrow> cache \<Rightarrow> json result" where
  "get_access_token rt cfg w c =
     (if token_usable c (now_check w) then (Inr (access_token c), c, [])
      else if credentials_missing cfg then
        (Inl (PyException ''Missing required credentials: TENANT_ID, CLIENT_ID, CLIENT_SECRET''),
         c, [])
      else
        (let req = token_post cfg in
         case token_endpoint w req of
           Failed msg \<Rightarrow> (Inl (TransportError msg), c, [TokenExchange req])
         | Responded r \<Rightarrow>
             if \<not> is_success r then (Inl (HTTPStatusError r), c, [TokenExchange req])
             else
               (case resp_json r of
                  None \<Rightarrow> (Inl JSONDecodeError, c, [TokenExchange req])
                | Some token_data \<Rightarrow>
                    (case store_token rt w c token_data of
                       (res, c') \<Rightarrow> (res, c', [TokenExchange req])))))"

subsection \<open>The dispatcher\<close>

definition GRAPH_API_VERSION :: string where
  "GRAPH_API_VERSION = ''v1.0''"

definition GRAPH_BASE_URL :: string where
  "GRAPH_BASE_URL = ''https://graph.microsoft.com/'' @ GRAPH_API_VERSION"

text \<open>
  A call \<^verbatim>\<open>client.get\<close>, \<^verbatim>\<open>client.post\<close>, \<^verbatim>\<open>client.patch\<close> or \<^verbatim>\<open>client.delete\<close> with the
  URL, the headers built from the token, the \<^verbatim>\<open>json=\<close> and \<^verbatim>\<open>params=\<close> arguments, and
  \<^verbatim>\<open>timeout=30\<close>.
\<close>

definition client_call ::
  "string \<Rightarrow> string \<Rightarrow> json \<Rightarrow> json option \<Rightarrow> (string \<times> string) list option \<Rightarrow> graph_request"
where
  "client_call v u token j ps =
     \<lparr>verb = v, url = u, bearer = token, content_type = ''application/json'',
      json_body = j, params = ps, timeout = 30\<rparr>"

text \<open>
  The \<^verbatim>\<open>if\<close>/\<^verbatim>\<open>elif\<close> chain of lines 83 to 92 on \<^verbatim>\<open>method.upper()\<close>: the client call it
  selects, or \<open>None\<close> for the final \<^verbatim>\<open>else\<close>. GET passes no \<^verbatim>\<open>json\<close>; DELETE passes
  neither \<^verbatim>\<open>json\<close> nor \<^verbatim>\<open>params\<close>.
\<close>

definition select_call ::
  "string \<Rightarrow> string \<Rightarrow> json \<Rightarrow> json option \<Rightarrow> (string \<times> string) list option \<Rightarrow> graph_request option"
where
  "select_call m u token data ps =
     (if m = ''GET'' then Some (client_call ''GET'' u token None ps)
      else if m = ''POST'' then Some (client_call ''POST'' u token data ps)
      else if m = ''PATCH'' then Some (client_call ''PATCH'' u token data ps)
      else if m = ''DELETE'' then Some (client_call ''DELETE'' u token None None)
      else None)"

definition make_graph_request ::
  "runtime \<Rightarrow> config \<Rightarrow> world \<Rightarrow> cache \<Rightarrow> string \<Rightarrow> string \<Rightarrow> json option \<Rightarrow>
   (string \<times> string) list option \<Rightarrow> json result"
where
  "make_graph_request rt cfg w c method endpoint data ps =
     (case get_access_token rt cfg w c of
        (Inl e, c', calls) \<Rightarrow> (Inl e, c', calls)
      | (Inr token, c', calls) \<Rightarrow>
          (case select_call (str_upper rt method) (GRAPH_BASE_URL @ endpoint) token data ps of
             None \<Rightarrow> (Inl (ValueError (''Unsupported method: '' @ method)), c', calls)
           | Some req \<Rightarrow>
               (case graph_endpoint w req of
                  Failed msg \<Rightarrow> (Inl (TransportError msg), c', calls @ [GraphCall req])
                | Responded r \<Rightarrow>
                    if \<not> is_success r then
                      (Inl (PyException (''Graph API error '' @ str_nat (status_code r) @ '': ''
                                          @ resp_text r)),
                       c', calls @ [GraphCall req])
                    else if resp_text r \<noteq> [] then
                      (case resp_json r of
                         None \<Rightarrow> (Inl JSONDecodeError, c', calls @ [GraphCall req])
                       | Some j \<Rightarrow> (Inr j, c', calls @ [GraphCall req]))
                    else (Inr (JObj []), c', calls @ [GraphCall req]))))"

text \<open>The method strings that the chain accepts: those that \<^verbatim>\<open>upper()\<close> maps to one of the four.\<close>

definition supported :: "runtime \<Rightarrow> string \<Rightarrow> bool" where
  "supported rt m = (str_upper rt m \<in> {''GET'', ''POST'', ''PATCH'', ''DELETE''})"

text \<open>
  The cache states a run of the program can reach: the globals start as \<^verbatim>\<open>None\<close>, and
  only the two functions write them, in any environment.
\<close>

inductive reachable :: "runtime \<Rightarrow> config \<Rightarrow> cache \<Rightarrow> bool"
  for rt :: runtime and cfg :: config
where
  start: "reachable rt cfg initial_cache"
| token_step:
    "reachable rt cfg c \<Longrightarrow> get_access_token rt cfg w c = (res, c', calls)
     \<Longrightarrow> reachable rt cfg c'"
| request_step:
    "reachable rt cfg c \<Longrightarrow> make_graph_request rt cfg w c m ep d ps = (res, c', calls)
     \<Longrightarrow> reachable rt cfg c'"

subsection \<open>A runtime, configurations, environments and caches for the examples\<close>

text \<open>
  The runtime of the examples. Its upper-casing moves the letters a to z to A to Z and
  keeps every other character, its sums and differences of finite floats are exact, and
  its conversion of an int is exact and overflows from \<open>2 ^ 1024 - 2 ^ 970\<close> on. It is
  CPython's runtime wherever the examples below apply it: on strings of ASCII characters,
  on whole numbers below \<open>2 ^ 53\<close>, whose sums and differences a double holds exactly, and
  on the int \<open>10 ^ 309\<close>, which is beyond the range of a double.
\<close>

definition upper_char :: "char \<Rightarrow> char" where
  "upper_char ch =
     (let n = (of_char ch :: nat) in if 97 \<le> n \<and> n \<le> 122 then char_of (n - 32) else ch)"

definition ascii_upper :: "string \<Rightarrow> string" where
  "ascii_upper s = map upper_char s"

fun exact_add :: "pyfloat \<Rightarrow> pyfloat \<Rightarrow> pyfloat" where
  "exact_add (Finite a) (Finite b) = Finite (a + b)"
| "exact_add NaN _ = NaN"
| "exact_add _ NaN = NaN"
| "exact_add PosInf NegInf = NaN"
| "exact_add NegInf PosInf = NaN"
| "exact_add PosInf _ = PosInf"
| "exact_add NegInf _ = NegInf"
| "exact_add (Finite a) y = y"

fun float_neg :: "pyfloat \<Rightarrow> pyfloat" where
  "float_neg (Finite a) = Finite (- a)"
| "float_neg PosInf = NegInf"
| "float_neg NegInf = PosInf"
| "float_neg NaN = NaN"

definition exact_sub :: "pyfloat \<Rightarrow> pyfloat \<Rightarrow> pyfloat" where
  "exact_sub x y = exact_add x (float_neg y)"

definition exact_of_int :: "int \<Rightarrow> pyfloat option" where
  "exact_of_int i = (if 2 ^ 1024 - 2 ^ 970 \<le> \<bar>i\<bar> then None else Some (Finite (of_int i)))"

text \<open>An int beyond the range of a double.\<close>

definition huge_int :: int where
  "huge_int = 10 ^ 309"

definition example_runtime :: runtime where
  "example_runtime =
     \<lparr>str_upper = ascii_upper, float_add = exact_add, float_sub = exact_sub,
      float_of_int = exact_of_int\<rparr>"

definition cfg_ok :: config where
  "cfg_ok = \<lparr>TENANT_ID = ''contoso'', CLIENT_ID = ''app-id'', CLIENT_SECRET = ''s3cret''\<rparr>"

definition cfg_no_secret :: config where
  "cfg_no_secret = \<lparr>TENANT_ID = ''contoso'', CLIENT_ID = ''app-id'', CLIENT_SECRET = []\<rparr>"

definition answer :: "nat \<Rightarrow> string \<Rightarrow> json option \<Rightarrow> outcome" where
  "answer s t j = Responded \<lparr>status_code = s, resp_text = t, resp_json = j\<rparr>"

text \<open>A 200 answer of the token endpoint whose body decodes to the given dict.\<close>

definition token_answer :: "(string \<times> json) list \<Rightarrow> outcome" where
  "token_answer kv = answer 200 ''(json)'' (Some (JObj kv))"

text \<open>An environment with the two clock readings and a fixed answer of each endpoint.\<close>

definition world_of :: "real \<Rightarrow> real \<Rightarrow> outcome \<Rightarrow> outcome \<Rightarrow> world" where
  "world_of t1 t2 a b =
     \<lparr>now_check = Finite t1, now_store = Finite t2,
      token_endpoint = (\<lambda>_. a), graph_endpoint = (\<lambda>_. b)\<rparr>"

text \<open>A cache holding the token \<^verbatim>\<open>abc\<close> until time 5000.\<close>

definition warm_cache :: cache where
  "warm_cache = \<lparr>access_token = JStr ''abc'', token_expiry = Some (Finite 5000)\<rparr>"

section \<open>Properties\<close>

subsection \<open>Evaluation of the examples\<close>

lemma example_runtime_fields:
  "str_upper example_runtime = ascii_upper"
  "float_add example_runtime = exact_add"
  "float_sub example_runtime = exact_sub"
  "float_of_int example_runtime = exact_of_int"
  by (simp_all add: example_runtime_def)

lemma exact_of_int_examples:
  "exact_of_int 3600 = Some (Finite 3600)"
  "exact_of_int 7200 = Some (Finite 7200)"
  "exact_of_int 30 = Some (Finite 30)"
  "exact_of_int huge_int = None"
  by (simp_all add: exact_of_int_def huge_int_def)

lemmas example_defs =
  cfg_ok_def cfg_no_secret_def answer_def token_answer_def world_of_def warm_cache_def
  initial_cache_def example_runtime_fields exact_of_int_examples exact_sub_def

lemmas token_defs =
  get_access_token_def token_usable_def credentials_missing_def is_success_def
  store_token_def dict_get_def

subsection \<open>The token manager\<close>

lemma fast_path:
  "token_usable c (now_check w) \<Longrightarrow>
   get_access_token rt cfg w c = (Inr (access_token c), c, [])"
  by (simp add: get_access_token_def)

lemma token_calls:
  "get_access_token rt cfg w c = (res, c', calls) \<Longrightarrow>
   calls = [] \<or> calls = [TokenExchange (token_post cfg)]"
  by (auto simp: get_access_token_def Let_def
      split: if_splits outcome.splits option.splits prod.splits)

lemma token_calls_no_graph:
  "get_access_token rt cfg w c = (res, c', calls) \<Longrightarrow> GraphCall rq \<notin> set calls"
  by (drule token_calls) auto

text \<open>
  Claim C4, as amended. When the cached token and the cached expiry are both true in
  Python's sense (the token is neither \<^verbatim>\<open>None\<close> nor empty, the expiry is neither \<^verbatim>\<open>None\<close>
  nor zero) and the clock is strictly before the expiry, \<^verbatim>\<open>get_access_token\<close> returns the
  cached token, makes no network call and leaves the cache as it was. The credentials
  are not looked at on this path, and the runtime plays no part in it.
\<close>

theorem fast_path_returns_cached:
  assumes "truthy (access_token c)"
    and "token_expiry c = Some e"
    and "float_truthy e"
    and "float_lt (now_check w) e"
  shows "get_access_token rt cfg w c = (Inr (access_token c), c, [])"
  using assms by (simp add: get_access_token_def token_usable_def)

theorem fast_path_returns_cached_witness:
  "truthy (access_token warm_cache) \<and> token_expiry warm_cache = Some (Finite 5000) \<and>
   float_truthy (Finite 5000) \<and>
   float_lt (now_check (world_of 1000 1000 (Failed ''down'') (Failed ''down''))) (Finite 5000) \<and>
   get_access_token example_runtime cfg_no_secret
     (world_of 1000 1000 (Failed ''down'') (Failed ''down'')) warm_cache
     = (Inr (JStr ''abc''), warm_cache, [])"
  using fast_path_returns_cached
    [of warm_cache "Finite 5000" "world_of 1000 1000 (Failed ''down'') (Failed ''down'')"
        example_runtime cfg_no_secret]
  by (simp add: example_defs)

text \<open>
  Claim C4 as stated fails for a cached token that is the empty string. A first call
  exchanges, is answered with an empty \<^verbatim>\<open>access_token\<close>, caches it with an expiry of 4540
  and returns it. A second call at time 1001, strictly before that expiry, does not
  return the cached value: the guard reads the empty string as false, and the call
  exchanges again and overwrites the cache.
\<close>

theorem empty_cached_token_is_refreshed:
  "get_access_token example_runtime cfg_ok
     (world_of 1000 1000 (token_answer [(''access_token'', JStr [])]) (Failed []))
     initial_cache
   = (Inr (JStr []), \<lparr>access_token = JStr [], token_expiry = Some (Finite 4540)\<rparr>,
      [TokenExchange (token_post cfg_ok)]) \<and>
   float_lt
     (now_check (world_of 1001 1001 (token_answer [(''access_token'', JStr ''abc'')]) (Failed [])))
     (Finite 4540) \<and>
   get_access_token example_runtime cfg_ok
     (world_of 1001 1001 (token_answer [(''access_token'', JStr ''abc'')]) (Failed []))
     \<lparr>access_token = JStr [], token_expiry = Some (Finite 4540)\<rparr>
   = (Inr (JStr ''abc''), \<lparr>access_token = JStr ''abc'', token_expiry = Some (Finite 4541)\<rparr>,
      [TokenExchange (token_post cfg_ok)])"
  by (simp add: token_defs example_defs)

text \<open>
  Claim C5, as amended. When no token is cached or the clock is not strictly before the
  cached expiry, the credentials are set, and the token endpoint answers with a 2xx
  status and a JSON object holding an \<^verbatim>\<open>access_token\<close> and an \<^verbatim>\<open>expires_in\<close> that is
  absent or a number that float arithmetic takes (a float, or an int or bool within the
  range of a double): exactly one token exchange is made, the new token is returned and
  the cache afterwards holds it with the expiry that the code's float arithmetic gives
  for \<open>exchangeTime + expires_in - 60\<close>, where \<^verbatim>\<open>expires_in\<close> is the int 3600 when
  the answer has none.
\<close>

theorem refresh_stores_expiry:
  assumes "access_token c = JNull \<or> token_expiry c = None \<or>
           (\<exists>e. token_expiry c = Some e \<and> \<not> float_lt (now_check w) e)"
    and "\<not> credentials_missing cfg"
    and "token_endpoint w (token_post cfg) = Responded r"
    and "is_success r"
    and "resp_json r = Some (JObj kv)"
    and "map_of kv ''access_token'' = Some tok"
    and "as_float rt (dict_get kv ''expires_in'' (JInt 3600)) = Inr x"
  shows "get_access_token rt cfg w c =
           (Inr tok,
            \<lparr>access_token = tok,
             token_expiry = Some (float_sub rt (float_add rt (now_store w) x) (Finite 60))\<rparr>,
            [TokenExchange (token_post cfg)]) \<and>
         (map_of kv ''expires_in'' = None \<longrightarrow> float_of_int rt 3600 = Some x)"
proof -
  from assms(1) have stale: "\<not> token_usable c (now_check w)"
    by (auto simp: token_usable_def)
  from assms(7) have dflt: "map_of kv ''expires_in'' = None \<longrightarrow> float_of_int rt 3600 = Some x"
    by (auto simp: dict_get_def split: option.splits)
  have "store_token rt w c (JObj kv) =
          (Inr tok,
           \<lparr>access_token = tok,
            token_expiry = Some (float_sub rt (float_add rt (now_store w) x) (Finite 60))\<rparr>)"
    using assms(6,7) by (simp add: store_token_def)
  with stale assms(2-5) dflt show ?thesis
    by (simp add: get_access_token_def)
qed

theorem refresh_stores_expiry_witness:
  "get_access_token example_runtime cfg_ok
     (world_of 6000 6002 (token_answer [(''access_token'', JStr ''xyz'')]) (Failed ''down''))
     warm_cache
   = (Inr (JStr ''xyz''),
      \<lparr>access_token = JStr ''xyz'', token_expiry = Some (Finite (6002 + 3600 - 60))\<rparr>,
      [TokenExchange (token_post cfg_ok)]) \<and>
   get_access_token example_runtime cfg_ok
     (world_of 6000 6002
        (token_answer [(''access_token'', JStr ''xyz''), (''expires_in'', JInt 7200)])
        (Failed ''down''))
     initial_cache
   = (Inr (JStr ''xyz''),
      \<lparr>access_token = JStr ''xyz'', token_expiry = Some (Finite (6002 + 7200 - 60))\<rparr>,
      [TokenExchange (token_post cfg_ok)])"
  using
    refresh_stores_expiry
      [of warm_cache
          "world_of 6000 6002 (token_answer [(''access_token'', JStr ''xyz'')]) (Failed ''down'')"
          cfg_ok "\<lparr>status_code = 200, resp_text = ''(json)'',
                    resp_json = Some (JObj [(''access_token'', JStr ''xyz'')])\<rparr>"
          "[(''access_token'', JStr ''xyz'')]" "JStr ''xyz''" example_runtime "Finite 3600"]
    refresh_stores_expiry
      [of initial_cache
          "world_of 6000 6002
             (token_answer [(''access_token'', JStr ''xyz''), (''expires_in'', JInt 7200)])
             (Failed ''down'')"
          cfg_ok "\<lparr>status_code = 200, resp_text = ''(json)'',
                    resp_json = Some (JObj [(''access_token'', JStr ''xyz''),
                                            (''expires_in'', JInt 7200)])\<rparr>"
          "[(''access_token'', JStr ''xyz''), (''expires_in'', JInt 7200)]" "JStr ''xyz''"
          example_runtime "Finite 7200"]
  by (simp add: example_defs credentials_missing_def is_success_def dict_get_def)

text \<open>
  Claim C5 as stated fails when the exchange succeeds with an \<^verbatim>\<open>expires_in\<close> that is an
  int beyond the range of a double: the sum on line 67 raises an OverflowError, so no
  token is returned, and the new token, stored on line 65, is left in the cache without
  an expiry.
\<close>

theorem huge_lifetime_raises:
  "get_access_token example_runtime cfg_ok
     (world_of 1000 1000
        (token_answer [(''access_token'', JStr ''abc''), (''expires_in'', JInt huge_int)])
        (Failed ''down''))
     initial_cache
   = (Inl OverflowError, \<lparr>access_token = JStr ''abc'', token_expiry = None\<rparr>,
      [TokenExchange (token_post cfg_ok)])"
  by (simp add: token_defs example_defs)

text \<open>
  Claim C6. A call of \<^verbatim>\<open>get_access_token\<close> that makes a token exchange and is answered
  with a status outside 2xx fails with the HTTPStatusError of \<^verbatim>\<open>raise_for_status\<close>, which
  carries the response (its status and its body); the cache is left as it was, and the
  exchange was the only network call.
\<close>

theorem rejected_exchange_keeps_cache:
  assumes "get_access_token rt cfg w c = (res, c', calls)"
    and "TokenExchange rq \<in> set calls"
    and "token_endpoint w rq = Responded r"
    and "\<not> is_success r"
  shows "res = Inl (HTTPStatusError r) \<and> c' = c \<and> calls = [TokenExchange rq]"
  using assms
  by (auto simp: get_access_token_def Let_def
      split: if_splits outcome.splits option.splits prod.splits)

theorem rejected_exchange_keeps_cache_witness:
  "\<not> is_success \<lparr>status_code = 401, resp_text = ''invalid_client'', resp_json = None\<rparr> \<and>
   get_access_token example_runtime cfg_ok
     (world_of 6000 6002 (answer 401 ''invalid_client'' None) (Failed ''down'')) warm_cache
   = (Inl (HTTPStatusError \<lparr>status_code = 401, resp_text = ''invalid_client'', resp_json = None\<rparr>),
      warm_cache, [TokenExchange (token_post cfg_ok)])"
  using rejected_exchange_keeps_cache
    [of example_runtime cfg_ok
        "world_of 6000 6002 (answer 401 ''invalid_client'' None) (Failed ''down'')"
        warm_cache
        "Inl (HTTPStatusError \<lparr>status_code = 401, resp_text = ''invalid_client'', resp_json = None\<rparr>)"
        warm_cache "[TokenExchange (token_post cfg_ok)]" "token_post cfg_ok"
        "\<lparr>status_code = 401, resp_text = ''invalid_client'', resp_json = None\<rparr>"]
  by (simp add: token_defs example_defs)

text \<open>
  Claim C2 as stated fails when the token endpoint grants a lifetime of at most 60
  seconds: with \<^verbatim>\<open>expires_in = 30\<close>, a check at time 1000 and an exchange finished at time
  1001, the call returns the new token with an expiry of 971, which has passed.
\<close>

theorem short_lifetime_token_returned_expired:
  "get_access_token example_runtime cfg_ok
     (world_of 1000 1001
        (token_answer [(''access_token'', JStr ''abc''), (''expires_in'', JInt 30)]) (Failed []))
     initial_cache
   = (Inr (JStr ''abc''), \<lparr>access_token = JStr ''abc'', token_expiry = Some (Finite 971)\<rparr>,
      [TokenExchange (token_post cfg_ok)]) \<and>
   \<not> float_lt
       (now_check (world_of 1000 1001
          (token_answer [(''access_token'', JStr ''abc''), (''expires_in'', JInt 30)]) (Failed [])))
       (Finite 971)"
  by (simp add: token_defs example_defs)

text \<open>
  Claim C2, as amended. A call of \<^verbatim>\<open>get_access_token\<close> that returns a token returns the
  token now in the cache, and either made no network call, and then the cache is unchanged
  and its expiry is strictly after the time of the check; or made exactly one token
  exchange, and then the expiry stored with the new token is what the code's float
  arithmetic gives for the exchange time plus the granted \<^verbatim>\<open>expires_in\<close> minus 60, with
  no check of it against the clock.
\<close>

theorem returned_token_expiry:
  assumes "get_access_token rt cfg w c = (Inr tok, c', calls)"
  shows "access_token c' = tok \<and>
         (calls = [] \<longrightarrow>
            c' = c \<and> (\<exists>e. token_expiry c' = Some e \<and> float_lt (now_check w) e)) \<and>
         (calls \<noteq> [] \<longrightarrow>
            calls = [TokenExchange (token_post cfg)] \<and>
            (\<exists>r kv x. token_endpoint w (token_post cfg) = Responded r \<and>
               resp_json r = Some (JObj kv) \<and>
               as_float rt (dict_get kv ''expires_in'' (JInt 3600)) = Inr x \<and>
               token_expiry c' =
                 Some (float_sub rt (float_add rt (now_store w) x) (Finite 60))))"
proof (cases "token_usable c (now_check w)")
  case True
  with assms have "tok = access_token c" "c' = c" "calls = []"
    by (auto simp: get_access_token_def)
  with True show ?thesis
    by (auto simp: token_usable_def split: option.splits)
next
  case False
  with assms obtain r token_data where
    r: "token_endpoint w (token_post cfg) = Responded r" "resp_json r = Some token_data" and
    st: "store_token rt w c token_data = (Inr tok, c')" and
    calls: "calls = [TokenExchange (token_post cfg)]"
    by (auto simp: get_access_token_def Let_def
        split: if_splits outcome.splits option.splits prod.splits)
  from st obtain kv x where
    kv: "token_data = JObj kv" "map_of kv ''access_token'' = Some tok"
      "as_float rt (dict_get kv ''expires_in'' (JInt 3600)) = Inr x" and
    c': "c' = c\<lparr>access_token := tok,
               token_expiry := Some (float_sub rt (float_add rt (now_store w) x) (Finite 60))\<rparr>"
    by (auto simp: store_token_def Let_def split: json.splits option.splits sum.splits)
  have "token_endpoint w (token_post cfg) = Responded r \<and>
        resp_json r = Some (JObj kv) \<and>
        as_float rt (dict_get kv ''expires_in'' (JInt 3600)) = Inr x \<and>
        token_expiry c' = Some (float_sub rt (float_add rt (now_store w) x) (Finite 60))"
    using r kv c' by simp
  then have "\<exists>r kv x. token_endpoint w (token_post cfg) = Responded r \<and>
        resp_json r = Some (JObj kv) \<and>
        as_float rt (dict_get kv ''expires_in'' (JInt 3600)) = Inr x \<and>
        token_expiry c' = Some (float_sub rt (float_add rt (now_store w) x) (Finite 60))"
    by blast
  with calls c' show ?thesis by simp
qed

theorem returned_token_expiry_witness:
  "get_access_token example_runtime cfg_ok
     (world_of 1000 1000 (Failed ''down'') (Failed ''down'')) warm_cache
     = (Inr (JStr ''abc''), warm_cache, []) \<and>
   token_expiry warm_cache = Some (Finite 5000) \<and>
   float_lt (now_check (world_of 1000 1000 (Failed ''down'') (Failed ''down''))) (Finite 5000) \<and>
   get_access_token example_runtime cfg_ok
     (world_of 6000 6002 (token_answer [(''access_token'', JStr ''xyz'')]) (Failed ''down''))
     warm_cache
     = (Inr (JStr ''xyz''), \<lparr>access_token = JStr ''xyz'', token_expiry = Some (Finite 9542)\<rparr>,
        [TokenExchange (token_post cfg_ok)])"
proof -
  let ?w1 = "world_of 1000 1000 (Failed ''down'') (Failed ''down'')"
  let ?w2 = "world_of 6000 6002 (token_answer [(''access_token'', JStr ''xyz'')]) (Failed ''down'')"
  let ?c2 = "\<lparr>access_token = JStr ''xyz'', token_expiry = Some (Finite 9542)\<rparr>"
  have run1: "get_access_token example_runtime cfg_ok ?w1 warm_cache
                = (Inr (JStr ''abc''), warm_cache, [])"
    by (simp add: token_defs example_defs)
  from returned_token_expiry [OF run1]
  have cached: "token_expiry warm_cache = Some (Finite 5000) \<and>
                float_lt (now_check ?w1) (Finite 5000)"
    by (simp add: example_defs)
  have run2: "get_access_token example_runtime cfg_ok ?w2 warm_cache
                = (Inr (JStr ''xyz''), ?c2, [TokenExchange (token_post cfg_ok)])"
    by (simp add: token_defs example_defs)
  from returned_token_expiry [OF run2]
  have "token_expiry ?c2 = Some (Finite 9542)"
    by simp
  with run1 cached run2 show ?thesis by simp
qed

subsection \<open>The dispatcher\<close>

lemma upper_examples:
  "ascii_upper ''GET'' = ''GET''" "ascii_upper ''get'' = ''GET''"
  "ascii_upper ''DELETE'' = ''DELETE''" "ascii_upper ''Post'' = ''POST''"
  "ascii_upper ''POST'' = ''POST''"
  "ascii_upper ''trace'' = ''TRACE''" "ascii_upper ''TRACE'' = ''TRACE''"
  by code_simp+

lemma select_call_None:
  "\<not> supported rt m \<Longrightarrow> select_call (str_upper rt m) u tok d ps = None"
  by (simp add: supported_def select_call_def)

lemma select_call_Some:
  "supported rt m \<Longrightarrow> \<exists>rq. select_call (str_upper rt m) u tok d ps = Some rq"
  by (auto simp: supported_def select_call_def)

lemma error_is_not_success: "is_error r \<Longrightarrow> \<not> is_success r"
  by (simp add: is_error_def is_success_def)

text \<open>
  What a run of the dispatcher that issued a Graph call looks like: the token manager
  returned a token, the chain selected the call, the call is the last network call, and
  the result is read off the endpoint's answer.
\<close>

lemma request_issued:
  assumes "make_graph_request rt cfg w c m ep d ps = (res, c', calls)"
    and "GraphCall rq \<in> set calls"
  obtains tok calls1 where
    "get_access_token rt cfg w c = (Inr tok, c', calls1)"
    "select_call (str_upper rt m) (GRAPH_BASE_URL @ ep) tok d ps = Some rq"
    "calls = calls1 @ [GraphCall rq]"
    "res = (case graph_endpoint w rq of
              Failed msg \<Rightarrow> Inl (TransportError msg)
            | Responded r \<Rightarrow>
                if \<not> is_success r then
                  Inl (PyException (''Graph API error '' @ str_nat (status_code r) @ '': ''
                                     @ resp_text r))
                else if resp_text r \<noteq> [] then
                  (case resp_json r of None \<Rightarrow> Inl JSONDecodeError | Some j \<Rightarrow> Inr j)
                else Inr (JObj []))"
proof -
  obtain r1 c1 calls1 where g: "get_access_token rt cfg w c = (r1, c1, calls1)"
    by (cases "get_access_token rt cfg w c") auto
  then have nog: "GraphCall rq \<notin> set calls1"
    by (rule token_calls_no_graph)
  show thesis
  proof (cases r1)
    case (Inl e)
    with g assms nog show thesis
      by (simp add: make_graph_request_def)
  next
    case (Inr tok)
    show thesis
    proof (cases "select_call (str_upper rt m) (GRAPH_BASE_URL @ ep) tok d ps")
      case None
      with g Inr assms nog show thesis
        by (simp add: make_graph_request_def)
    next
      case (Some req)
      with g Inr assms(1) have calls: "calls = calls1 @ [GraphCall req]" and c': "c' = c1"
        by (auto simp: make_graph_request_def split: outcome.splits if_splits option.splits)
      with assms(2) nog have req: "req = rq" by auto
      from g Inr Some assms(1) req have
        "res = (case graph_endpoint w rq of
              Failed msg \<Rightarrow> Inl (TransportError msg)
            | Responded r \<Rightarrow>
                if \<not> is_success r then
                  Inl (PyException (''Graph API error '' @ str_nat (status_code r) @ '': ''
                                     @ resp_text r))
                else if resp_text r \<noteq> [] then
                  (case resp_json r of None \<Rightarrow> Inl JSONDecodeError | Some j \<Rightarrow> Inr j)
                else Inr (JObj []))"
        by (auto simp: make_graph_request_def split: outcome.splits if_splits option.splits)
      with g Inr Some calls c' req that show thesis by simp
    qed
  qed
qed

lemma token_calls_filter:
  "get_access_token rt cfg w c = (res, c', calls) \<Longrightarrow> filter is_graph_call calls = []"
  by (drule token_calls) auto

text \<open>
  Claim C1, as amended. For a method string that \<^verbatim>\<open>upper()\<close> maps to none of GET, POST,
  PATCH and DELETE, \<^verbatim>\<open>make_graph_request\<close> first obtains a token as \<^verbatim>\<open>get_access_token\<close>
  does, with that call's effect on the cache and its network calls; a failure of that call
  is the failure of the request, and otherwise the request fails with the ValueError
  \<^verbatim>\<open>Unsupported method: ...\<close>. No Graph call is made in any case, and with a usable cached
  token the request fails with no network call at all and the cache unchanged.
\<close>

theorem unsupported_method_after_token:
  assumes "\<not> supported rt m"
  shows "make_graph_request rt cfg w c m ep d ps =
           (case get_access_token rt cfg w c of
              (Inl e, c', calls) \<Rightarrow> (Inl e, c', calls)
            | (Inr tok, c', calls) \<Rightarrow>
                (Inl (ValueError (''Unsupported method: '' @ m)), c', calls)) \<and>
         filter is_graph_call (snd (snd (make_graph_request rt cfg w c m ep d ps))) = [] \<and>
         (token_usable c (now_check w) \<longrightarrow>
            make_graph_request rt cfg w c m ep d ps =
              (Inl (ValueError (''Unsupported method: '' @ m)), c, []))"
proof -
  have eq: "make_graph_request rt cfg w c m ep d ps =
           (case get_access_token rt cfg w c of
              (Inl e, c', calls) \<Rightarrow> (Inl e, c', calls)
            | (Inr tok, c', calls) \<Rightarrow>
                (Inl (ValueError (''Unsupported method: '' @ m)), c', calls))"
    using assms
    by (simp add: make_graph_request_def select_call_None split: prod.splits sum.splits)
  obtain r1 c1 calls1 where g: "get_access_token rt cfg w c = (r1, c1, calls1)"
    by (cases "get_access_token rt cfg w c") auto
  then have "filter is_graph_call calls1 = []"
    by (rule token_calls_filter)
  with eq g have nog: "filter is_graph_call (snd (snd (make_graph_request rt cfg w c m ep d ps))) = []"
    by (cases r1) simp_all
  have "token_usable c (now_check w) \<longrightarrow>
          make_graph_request rt cfg w c m ep d ps =
            (Inl (ValueError (''Unsupported method: '' @ m)), c, [])"
    using eq by (simp add: fast_path)
  with eq nog show ?thesis by blast
qed

lemma not_supported_TRACE: "\<not> supported example_runtime ''TRACE''"
  by (simp add: supported_def example_runtime_fields upper_examples)

theorem unsupported_method_after_token_witness:
  "\<not> supported example_runtime ''TRACE'' \<and>
   token_usable warm_cache (now_check (world_of 1000 1000 (Failed ''down'') (Failed ''down''))) \<and>
   make_graph_request example_runtime cfg_ok (world_of 1000 1000 (Failed ''down'') (Failed ''down'')) warm_cache
     ''TRACE'' ''/me/messages'' None None
   = (Inl (ValueError ''Unsupported method: TRACE''), warm_cache, [])"
proof -
  let ?w = "world_of 1000 1000 (Failed ''down'') (Failed ''down'')"
  have m: "\<not> supported example_runtime ''TRACE''"
    by (rule not_supported_TRACE)
  have u: "token_usable warm_cache (now_check ?w)"
    by (simp add: token_usable_def example_defs)
  from unsupported_method_after_token [OF m, of cfg_ok ?w warm_cache "''/me/messages''" None None] u
  have "make_graph_request example_runtime cfg_ok ?w warm_cache ''TRACE'' ''/me/messages'' None None
          = (Inl (ValueError (''Unsupported method: '' @ ''TRACE'')), warm_cache, [])"
    by blast
  with m u show ?thesis by simp
qed

text \<open>
  Claim C1 as stated fails when no token is cached: \<^verbatim>\<open>make_graph_request("TRACE", "/me/messages")\<close>
  on the initial cache makes a token exchange and stores its token before it raises
  the ValueError, since the token is fetched on line 74, before the method is looked at.
\<close>

theorem unsupported_method_exchanges_first:
  "\<not> supported example_runtime ''TRACE'' \<and>
   make_graph_request example_runtime cfg_ok
     (world_of 1000 1000 (token_answer [(''access_token'', JStr ''abc'')]) (Failed ''down''))
     initial_cache ''TRACE'' ''/me/messages'' None None
   = (Inl (ValueError ''Unsupported method: TRACE''),
      \<lparr>access_token = JStr ''abc'', token_expiry = Some (Finite 4540)\<rparr>,
      [TokenExchange (token_post cfg_ok)])"
  by (simp add: not_supported_TRACE make_graph_request_def select_call_def upper_examples
        client_call_def token_defs example_defs)

lemma str_nat_403: "str_nat 403 = ''403''"
  by code_simp

lemmas request_defs =
  make_graph_request_def select_call_def client_call_def GRAPH_BASE_URL_def GRAPH_API_VERSION_def

text \<open>
  Claim C7. When the Graph call of a request is answered with a client or server error
  status (400 to 599), the request fails with
  \<^verbatim>\<open>Exception(f"Graph API error {status_code}: {text}")\<close>: the message holds the status
  code in decimal and then the body text of the response as it is. The request made
  exactly one Graph call.
\<close>

theorem graph_error_is_reported:
  assumes "make_graph_request rt cfg w c m ep d ps = (res, c', calls)"
    and "GraphCall rq \<in> set calls"
    and "graph_endpoint w rq = Responded r"
    and "is_error r"
  shows "res = Inl (PyException (''Graph API error '' @ str_nat (status_code r) @ '': ''
                                  @ resp_text r)) \<and>
         filter is_graph_call calls = [GraphCall rq]"
proof -
  from assms(1,2) obtain tok calls1 where
    g: "get_access_token rt cfg w c = (Inr tok, c', calls1)" and
    calls: "calls = calls1 @ [GraphCall rq]" and
    res: "res = (case graph_endpoint w rq of
              Failed msg \<Rightarrow> Inl (TransportError msg)
            | Responded r \<Rightarrow>
                if \<not> is_success r then
                  Inl (PyException (''Graph API error '' @ str_nat (status_code r) @ '': ''
                                     @ resp_text r))
                else if resp_text r \<noteq> [] then
                  (case resp_json r of None \<Rightarrow> Inl JSONDecodeError | Some j \<Rightarrow> Inr j)
                else Inr (JObj []))"
    by (rule request_issued)
  from g have "filter is_graph_call calls1 = []"
    by (rule token_calls_filter)
  with calls have "filter is_graph_call calls = [GraphCall rq]" by simp
  moreover from assms(4) have "\<not> is_success r"
    by (rule error_is_not_success)
  with res assms(3) have
    "res = Inl (PyException (''Graph API error '' @ str_nat (status_code r) @ '': ''
                              @ resp_text r))"
    by simp
  ultimately show ?thesis by simp
qed

theorem graph_error_is_reported_witness:
  "is_error \<lparr>status_code = 403, resp_text = ''Access denied'', resp_json = None\<rparr> \<and>
   make_graph_request example_runtime cfg_ok
     (world_of 1000 1000 (Failed ''down'') (answer 403 ''Access denied'' None)) warm_cache
     ''GET'' ''/me/messages'' None None
   = (Inl (PyException ''Graph API error 403: Access denied''), warm_cache,
      [GraphCall \<lparr>verb = ''GET'', url = ''https://graph.microsoft.com/v1.0/me/messages'',
                  bearer = JStr ''abc'', content_type = ''application/json'',
                  json_body = None, params = None, timeout = 30\<rparr>])"
proof -
  let ?w = "world_of 1000 1000 (Failed ''down'') (answer 403 ''Access denied'' None)"
  let ?r = "\<lparr>status_code = 403, resp_text = ''Access denied'', resp_json = None\<rparr>"
  let ?rq = "\<lparr>verb = ''GET'', url = ''https://graph.microsoft.com/v1.0/me/messages'',
              bearer = JStr ''abc'', content_type = ''application/json'',
              json_body = None, params = None, timeout = 30\<rparr>"
  obtain res c' calls where
    run: "make_graph_request example_runtime cfg_ok ?w warm_cache ''GET'' ''/me/messages'' None None
            = (res, c', calls)"
    by (cases "make_graph_request example_runtime cfg_ok ?w warm_cache ''GET'' ''/me/messages'' None None") auto
  then have shape: "c' = warm_cache" "calls = [GraphCall ?rq]"
    by (auto simp: request_defs upper_examples token_defs is_error_def example_defs)
  have err: "is_error ?r"
    by (simp add: is_error_def)
  have ans: "graph_endpoint ?w ?rq = Responded ?r"
    by (simp add: example_defs)
  from shape have "GraphCall ?rq \<in> set calls" by simp
  from graph_error_is_reported [OF run this ans err]
  have "res = Inl (PyException ''Graph API error 403: Access denied'')"
    by (simp add: str_nat_403)
  with run shape err show ?thesis by simp
qed

text \<open>
  Claim C9, as amended. When the Graph call of a request is answered with a 2xx status,
  the request returns the empty dict if the body text is empty; if the body text is not
  empty, it returns the body decoded as JSON when \<^verbatim>\<open>response.json()\<close> decodes it, and fails
  with the decode error of \<^verbatim>\<open>response.json()\<close> when the body is not JSON.
\<close>

theorem successful_answer_is_decoded:
  assumes "make_graph_request rt cfg w c m ep d ps = (res, c', calls)"
    and "GraphCall rq \<in> set calls"
    and "graph_endpoint w rq = Responded r"
    and "is_success r"
  shows "res = (if resp_text r = [] then Inr (JObj [])
                else case resp_json r of Some j \<Rightarrow> Inr j | None \<Rightarrow> Inl JSONDecodeError)"
proof -
  from assms(1,2) obtain tok calls1 where
    "res = (case graph_endpoint w rq of
              Failed msg \<Rightarrow> Inl (TransportError msg)
            | Responded r \<Rightarrow>
                if \<not> is_success r then
                  Inl (PyException (''Graph API error '' @ str_nat (status_code r) @ '': ''
                                     @ resp_text r))
                else if resp_text r \<noteq> [] then
                  (case resp_json r of None \<Rightarrow> Inl JSONDecodeError | Some j \<Rightarrow> Inr j)
                else Inr (JObj []))"
    by (rule request_issued)
  with assms(3,4) show ?thesis
    by (simp split: option.splits)
qed

theorem successful_answer_is_decoded_witness:
  "make_graph_request example_runtime cfg_ok
     (world_of 1000 1000 (Failed ''down'') (answer 204 [] None)) warm_cache
     ''DELETE'' ''/me/messages/42'' None None
   = (Inr (JObj []), warm_cache,
      [GraphCall \<lparr>verb = ''DELETE'', url = ''https://graph.microsoft.com/v1.0/me/messages/42'',
                  bearer = JStr ''abc'', content_type = ''application/json'',
                  json_body = None, params = None, timeout = 30\<rparr>]) \<and>
   make_graph_request example_runtime cfg_ok
     (world_of 1000 1000 (Failed ''down'')
        (answer 200 ''(json)'' (Some (JObj [(''value'', JArr [])])))) warm_cache
     ''GET'' ''/me/messages'' None None
   = (Inr (JObj [(''value'', JArr [])]), warm_cache,
      [GraphCall \<lparr>verb = ''GET'', url = ''https://graph.microsoft.com/v1.0/me/messages'',
                  bearer = JStr ''abc'', content_type = ''application/json'',
                  json_body = None, params = None, timeout = 30\<rparr>])"
proof -
  let ?w1 = "world_of 1000 1000 (Failed ''down'') (answer 204 [] None)"
  let ?w2 = "world_of 1000 1000 (Failed ''down'')
               (answer 200 ''(json)'' (Some (JObj [(''value'', JArr [])])))"
  let ?rq1 = "\<lparr>verb = ''DELETE'', url = ''https://graph.microsoft.com/v1.0/me/messages/42'',
               bearer = JStr ''abc'', content_type = ''application/json'',
               json_body = None, params = None, timeout = 30\<rparr>"
  let ?rq2 = "\<lparr>verb = ''GET'', url = ''https://graph.microsoft.com/v1.0/me/messages'',
               bearer = JStr ''abc'', content_type = ''application/json'',
               json_body = None, params = None, timeout = 30\<rparr>"
  obtain res1 c1 calls1 where
    run1: "make_graph_request example_runtime cfg_ok ?w1 warm_cache ''DELETE'' ''/me/messages/42'' None None
             = (res1, c1, calls1)"
    by (cases "make_graph_request example_runtime cfg_ok ?w1 warm_cache ''DELETE'' ''/me/messages/42'' None None")
      auto
  then have shape1: "c1 = warm_cache" "calls1 = [GraphCall ?rq1]"
    by (auto simp: request_defs upper_examples token_defs example_defs)
  then have in1: "GraphCall ?rq1 \<in> set calls1" by simp
  have "res1 = Inr (JObj [])"
    using successful_answer_is_decoded
      [OF run1 in1, of "\<lparr>status_code = 204, resp_text = [], resp_json = None\<rparr>"]
    by (simp add: example_defs is_success_def)
  with run1 shape1 have first:
    "make_graph_request example_runtime cfg_ok ?w1 warm_cache ''DELETE'' ''/me/messages/42'' None None
       = (Inr (JObj []), warm_cache, [GraphCall ?rq1])"
    by simp
  obtain res2 c2 calls2 where
    run2: "make_graph_request example_runtime cfg_ok ?w2 warm_cache ''GET'' ''/me/messages'' None None
             = (res2, c2, calls2)"
    by (cases "make_graph_request example_runtime cfg_ok ?w2 warm_cache ''GET'' ''/me/messages'' None None") auto
  then have shape2: "c2 = warm_cache" "calls2 = [GraphCall ?rq2]"
    by (auto simp: request_defs upper_examples token_defs example_defs)
  then have in2: "GraphCall ?rq2 \<in> set calls2" by simp
  have "res2 = Inr (JObj [(''value'', JArr [])])"
    using successful_answer_is_decoded
      [OF run2 in2, of "\<lparr>status_code = 200, resp_text = ''(json)'',
                         resp_json = Some (JObj [(''value'', JArr [])])\<rparr>"]
    by (simp add: example_defs is_success_def)
  with run2 shape2 have
    "make_graph_request example_runtime cfg_ok ?w2 warm_cache ''GET'' ''/me/messages'' None None
       = (Inr (JObj [(''value'', JArr [])]), warm_cache, [GraphCall ?rq2])"
    by simp
  with first show ?thesis by simp
qed

text \<open>
  Claim C9 as stated fails for a 2xx answer whose body is not empty and not JSON: the
  request does not return the body parsed, it raises the decode error of line 97, which
  the \<^verbatim>\<open>except\<close> clause of line 99 does not catch.
\<close>

theorem successful_answer_not_json:
  "is_success \<lparr>status_code = 200, resp_text = ''<html>'', resp_json = None\<rparr> \<and>
   make_graph_request example_runtime cfg_ok
     (world_of 1000 1000 (Failed ''down'') (answer 200 ''<html>'' None)) warm_cache
     ''GET'' ''/me/messages'' None None
   = (Inl JSONDecodeError, warm_cache,
      [GraphCall \<lparr>verb = ''GET'', url = ''https://graph.microsoft.com/v1.0/me/messages'',
                  bearer = JStr ''abc'', content_type = ''application/json'',
                  json_body = None, params = None, timeout = 30\<rparr>])"
  by (simp add: request_defs upper_examples token_defs example_defs)

text \<open>
  Claim C3 fails for DELETE. The branch on line 90 calls \<^verbatim>\<open>client.delete\<close> without
  \<^verbatim>\<open>params\<close>, where the GET, POST and PATCH branches pass \<^verbatim>\<open>params=params\<close>: a DELETE
  request given query parameters issues a call that has none.
\<close>

theorem delete_drops_params:
  "make_graph_request example_runtime cfg_ok
     (world_of 1000 1000 (Failed ''down'') (answer 204 [] None)) warm_cache
     ''DELETE'' ''/me/messages'' None (Some [(''$filter'', ''isRead eq true'')])
   = (Inr (JObj []), warm_cache,
      [GraphCall \<lparr>verb = ''DELETE'', url = ''https://graph.microsoft.com/v1.0/me/messages'',
                  bearer = JStr ''abc'', content_type = ''application/json'',
                  json_body = None, params = None, timeout = 30\<rparr>])"
  by (simp add: request_defs upper_examples token_defs example_defs)

text \<open>
  What the dispatcher hands to the HTTP client, for every Graph call it issues: the
  method is one of the four, the URL is the base URL followed by the endpoint, the
  timeout is 30, the JSON body is the given one for POST and PATCH and absent for GET
  and DELETE, and the query parameters are the given ones for GET, POST and PATCH and
  absent for DELETE.
\<close>

theorem issued_call_arguments:
  assumes "make_graph_request rt cfg w c m ep d ps = (res, c', calls)"
    and "GraphCall rq \<in> set calls"
  shows "verb rq = str_upper rt m \<and> supported rt m \<and>
         url rq = GRAPH_BASE_URL @ ep \<and> timeout rq = 30 \<and>
         json_body rq = (if str_upper rt m = ''POST'' \<or> str_upper rt m = ''PATCH'' then d else None) \<and>
         params rq = (if str_upper rt m = ''DELETE'' then None else ps)"
proof -
  from assms obtain tok where
    "select_call (str_upper rt m) (GRAPH_BASE_URL @ ep) tok d ps = Some rq"
    by (rule request_issued)
  then show ?thesis
    by (auto simp: select_call_def client_call_def supported_def split: if_splits)
qed

theorem issued_call_arguments_witness:
  "make_graph_request example_runtime cfg_ok
     (world_of 1000 1000 (Failed ''down'') (answer 200 [] None)) warm_cache
     ''Post'' ''/me/sendMail'' (Some (JObj [])) (Some [(''$top'', ''5'')])
   = (Inr (JObj []), warm_cache,
      [GraphCall \<lparr>verb = ''POST'', url = ''https://graph.microsoft.com/v1.0/me/sendMail'',
                  bearer = JStr ''abc'', content_type = ''application/json'',
                  json_body = Some (JObj []), params = Some [(''$top'', ''5'')],
                  timeout = 30\<rparr>]) \<and>
   supported example_runtime ''Post''"
proof -
  let ?w = "world_of 1000 1000 (Failed ''down'') (answer 200 [] None)"
  let ?rq = "\<lparr>verb = ''POST'', url = ''https://graph.microsoft.com/v1.0/me/sendMail'',
              bearer = JStr ''abc'', content_type = ''application/json'',
              json_body = Some (JObj []), params = Some [(''$top'', ''5'')], timeout = 30\<rparr>"
  have run: "make_graph_request example_runtime cfg_ok ?w warm_cache ''Post'' ''/me/sendMail'' (Some (JObj []))
               (Some [(''$top'', ''5'')])
             = (Inr (JObj []), warm_cache, [GraphCall ?rq])"
    by (simp add: request_defs upper_examples token_defs example_defs)
  have "GraphCall ?rq \<in> set [GraphCall ?rq]" by simp
  from issued_call_arguments [OF run this] have "supported example_runtime ''Post''" by simp
  with run show ?thesis by simp
qed

lemma missing_credentials_error:
  "credentials_missing cfg \<Longrightarrow>
   get_access_token rt cfg w initial_cache =
     (Inl (PyException ''Missing required credentials: TENANT_ID, CLIENT_ID, CLIENT_SECRET''),
      initial_cache, [])"
  by (simp add: get_access_token_def token_usable_def initial_cache_def)

lemma missing_credentials_request:
  "credentials_missing cfg \<Longrightarrow>
   make_graph_request rt cfg w initial_cache m ep d ps =
     (Inl (PyException ''Missing required credentials: TENANT_ID, CLIENT_ID, CLIENT_SECRET''),
      initial_cache, [])"
  by (simp add: make_graph_request_def missing_credentials_error)

lemma missing_credentials_cache:
  assumes "reachable rt cfg c" and "credentials_missing cfg"
  shows "c = initial_cache"
  using assms
proof (induction rule: reachable.induct)
  case start
  show ?case by simp
next
  case (token_step c w res c' calls)
  then show ?case by (simp add: missing_credentials_error)
next
  case (request_step c w m ep d ps res c' calls)
  then show ?case by (simp add: missing_credentials_request)
qed

text \<open>
  Claim C8. When one of the three credentials is empty, every call of
  \<^verbatim>\<open>get_access_token\<close>, and every call of \<^verbatim>\<open>make_graph_request\<close>, in a cache state that
  the program can reach fails with the exception
  \<^verbatim>\<open>Missing required credentials: TENANT_ID, CLIENT_ID, CLIENT_SECRET\<close>, makes no network
  call and leaves the cache as it was. (The check stands after the fast path, but
  without credentials no exchange ever succeeds, so the cache never leaves its initial
  state and the fast path is never taken.)
\<close>

theorem missing_credentials_fail:
  assumes "reachable rt cfg c" and "credentials_missing cfg"
  shows "get_access_token rt cfg w c =
           (Inl (PyException ''Missing required credentials: TENANT_ID, CLIENT_ID, CLIENT_SECRET''),
            c, []) \<and>
         make_graph_request rt cfg w c m ep d ps =
           (Inl (PyException ''Missing required credentials: TENANT_ID, CLIENT_ID, CLIENT_SECRET''),
            c, [])"
proof -
  from assms have "c = initial_cache"
    by (rule missing_credentials_cache)
  with assms(2) show ?thesis
    by (simp add: missing_credentials_error missing_credentials_request)
qed

theorem missing_credentials_fail_witness:
  "reachable example_runtime cfg_no_secret initial_cache \<and> credentials_missing cfg_no_secret \<and>
   get_access_token example_runtime cfg_no_secret
     (world_of 1000 1000 (token_answer [(''access_token'', JStr ''abc'')]) (Failed ''down''))
     initial_cache
   = (Inl (PyException ''Missing required credentials: TENANT_ID, CLIENT_ID, CLIENT_SECRET''),
      initial_cache, []) \<and>
   make_graph_request example_runtime cfg_no_secret
     (world_of 1000 1000 (token_answer [(''access_token'', JStr ''abc'')]) (Failed ''down''))
     initial_cache ''GET'' ''/me/messages'' None None
   = (Inl (PyException ''Missing required credentials: TENANT_ID, CLIENT_ID, CLIENT_SECRET''),
      initial_cache, [])"
proof -
  have r: "reachable example_runtime cfg_no_secret initial_cache"
    by (rule reachable.start)
  have m: "credentials_missing cfg_no_secret"
    by (simp add: credentials_missing_def cfg_no_secret_def)
  from missing_credentials_fail [OF r m] r m show ?thesis
    by blast
qed

text \<open>
  Claim C10, as amended. With an upper-casing that changes nothing when applied a second
  time to \<^verbatim>\<open>m.upper()\<close>, as that of \<^verbatim>\<open>str.upper()\<close> does, a request with method \<^verbatim>\<open>m\<close> and one
  with \<^verbatim>\<open>m.upper()\<close> leave the same cache and make the same network calls. When
  \<^verbatim>\<open>upper()\<close> maps the method to one of the four, the two requests are equal in every
  respect. When it does not, both fail alike: with the token manager's error if there
  is one, and otherwise with the ValueError, whose message quotes the method string as it
  was passed.
\<close>

theorem case_insensitive_dispatch:
  assumes idem: "str_upper rt (str_upper rt m) = str_upper rt m"
  shows
  "(supported rt m \<longrightarrow>
      make_graph_request rt cfg w c (str_upper rt m) ep d ps
        = make_graph_request rt cfg w c m ep d ps) \<and>
   snd (make_graph_request rt cfg w c (str_upper rt m) ep d ps)
     = snd (make_graph_request rt cfg w c m ep d ps) \<and>
   (\<not> supported rt m \<longrightarrow>
      (case fst (get_access_token rt cfg w c) of
         Inl e \<Rightarrow>
           fst (make_graph_request rt cfg w c m ep d ps) = Inl e \<and>
           fst (make_graph_request rt cfg w c (str_upper rt m) ep d ps) = Inl e
       | Inr tok \<Rightarrow>
           fst (make_graph_request rt cfg w c m ep d ps)
             = Inl (ValueError (''Unsupported method: '' @ m)) \<and>
           fst (make_graph_request rt cfg w c (str_upper rt m) ep d ps)
             = Inl (ValueError (''Unsupported method: '' @ str_upper rt m))))"
proof -
  obtain r1 c1 calls1 where g: "get_access_token rt cfg w c = (r1, c1, calls1)"
    by (cases "get_access_token rt cfg w c") auto
  have a: "supported rt m \<longrightarrow>
      make_graph_request rt cfg w c (str_upper rt m) ep d ps
        = make_graph_request rt cfg w c m ep d ps"
  proof
    assume "supported rt m"
    then obtain rq where
      "select_call (str_upper rt m) (GRAPH_BASE_URL @ ep)
         (case r1 of Inr t \<Rightarrow> t | Inl _ \<Rightarrow> JNull) d ps = Some rq"
      using select_call_Some by blast
    with g show
      "make_graph_request rt cfg w c (str_upper rt m) ep d ps
         = make_graph_request rt cfg w c m ep d ps"
      by (cases r1) (simp_all add: make_graph_request_def idem)
  qed
  have b: "snd (make_graph_request rt cfg w c (str_upper rt m) ep d ps)
             = snd (make_graph_request rt cfg w c m ep d ps)"
  proof (cases "supported rt m")
    case True
    with a show ?thesis by simp
  next
    case False
    with g show ?thesis
      by (cases r1) (simp_all add: make_graph_request_def idem select_call_None)
  qed
  have "\<not> supported rt m \<longrightarrow>
      (case fst (get_access_token rt cfg w c) of
         Inl e \<Rightarrow>
           fst (make_graph_request rt cfg w c m ep d ps) = Inl e \<and>
           fst (make_graph_request rt cfg w c (str_upper rt m) ep d ps) = Inl e
       | Inr tok \<Rightarrow>
           fst (make_graph_request rt cfg w c m ep d ps)
             = Inl (ValueError (''Unsupported method: '' @ m)) \<and>
           fst (make_graph_request rt cfg w c (str_upper rt m) ep d ps)
             = Inl (ValueError (''Unsupported method: '' @ str_upper rt m)))"
    using g
    by (cases r1) (simp_all add: make_graph_request_def idem select_call_None)
  with a b show ?thesis by blast
qed

theorem case_insensitive_dispatch_witness:
  "str_upper example_runtime (str_upper example_runtime ''get'') = str_upper example_runtime ''get'' \<and>
   supported example_runtime ''get'' \<and>
   make_graph_request example_runtime cfg_ok
     (world_of 1000 1000 (Failed ''down'') (answer 200 [] None)) warm_cache
     (str_upper example_runtime ''get'') ''/me/messages'' None None
   = make_graph_request example_runtime cfg_ok
     (world_of 1000 1000 (Failed ''down'') (answer 200 [] None)) warm_cache
     ''get'' ''/me/messages'' None None \<and>
   make_graph_request example_runtime cfg_ok
     (world_of 1000 1000 (Failed ''down'') (answer 200 [] None)) warm_cache
     ''get'' ''/me/messages'' None None
   = (Inr (JObj []), warm_cache,
      [GraphCall \<lparr>verb = ''GET'', url = ''https://graph.microsoft.com/v1.0/me/messages'',
                  bearer = JStr ''abc'', content_type = ''application/json'',
                  json_body = None, params = None, timeout = 30\<rparr>])"
proof -
  let ?w = "world_of 1000 1000 (Failed ''down'') (answer 200 [] None)"
  have i: "str_upper example_runtime (str_upper example_runtime ''get'')
             = str_upper example_runtime ''get''"
    by (simp add: example_runtime_fields upper_examples)
  have s: "supported example_runtime ''get''"
    by (simp add: supported_def example_runtime_fields upper_examples)
  from case_insensitive_dispatch [OF i, of cfg_ok ?w warm_cache "''/me/messages''" None None] s
  have "make_graph_request example_runtime cfg_ok ?w warm_cache
          (str_upper example_runtime ''get'') ''/me/messages'' None None
        = make_graph_request example_runtime cfg_ok ?w warm_cache ''get'' ''/me/messages'' None None"
    by blast
  moreover have
    "make_graph_request example_runtime cfg_ok ?w warm_cache ''get'' ''/me/messages'' None None
       = (Inr (JObj []), warm_cache,
          [GraphCall \<lparr>verb = ''GET'', url = ''https://graph.microsoft.com/v1.0/me/messages'',
                      bearer = JStr ''abc'', content_type = ''application/json'',
                      json_body = None, params = None, timeout = 30\<rparr>])"
    by (simp add: request_defs upper_examples token_defs example_defs)
  ultimately show ?thesis using i s by simp
qed

text \<open>
  Claim C10 as stated fails for an unsupported method with a lower-case letter: the
  message of the ValueError is built from \<^verbatim>\<open>method\<close>, not from \<^verbatim>\<open>method.upper()\<close>, so
  the requests for \<^verbatim>\<open>trace\<close> and for \<^verbatim>\<open>TRACE\<close> raise different messages.
\<close>

theorem unsupported_message_quotes_method:
  "str_upper example_runtime ''trace'' = ''TRACE'' \<and>
   make_graph_request example_runtime cfg_ok
     (world_of 1000 1000 (Failed ''down'') (Failed ''down'')) warm_cache
     ''trace'' ''/me/messages'' None None
   = (Inl (ValueError ''Unsupported method: trace''), warm_cache, []) \<and>
   make_graph_request example_runtime cfg_ok
     (world_of 1000 1000 (Failed ''down'') (Failed ''down'')) warm_cache
     (str_upper example_runtime ''trace'') ''/me/messages'' None None
   = (Inl (ValueError ''Unsupported method: TRACE''), warm_cache, [])"
  by (simp add: request_defs upper_examples token_defs example_defs)

text \<open>
  A failure of the token manager is the failure of the request, unchanged: the
  dispatcher adds no call and does not touch the cache.
\<close>

theorem token_failure_propagates:
  assumes "get_access_token rt cfg w c = (Inl e, c', calls)"
  shows "make_graph_request rt cfg w c m ep d ps = (Inl e, c', calls)"
  using assms by (simp add: make_graph_request_def)

theorem token_failure_propagates_witness:
  "make_graph_request example_runtime cfg_ok
     (world_of 6000 6002 (answer 401 ''invalid_client'' None) (Failed ''down'')) warm_cache
     ''GET'' ''/me/messages'' None None
   = (Inl (HTTPStatusError \<lparr>status_code = 401, resp_text = ''invalid_client'', resp_json = None\<rparr>),
      warm_cache, [TokenExchange (token_post cfg_ok)])"
proof -
  let ?w = "world_of 6000 6002 (answer 401 ''invalid_client'' None) (Failed ''down'')"
  have "get_access_token example_runtime cfg_ok ?w warm_cache
        = (Inl (HTTPStatusError \<lparr>status_code = 401, resp_text = ''invalid_client'',
                                  resp_json = None\<rparr>),
           warm_cache, [TokenExchange (token_post cfg_ok)])"
    by (simp add: token_defs example_defs)
  then show ?thesis
    by (rule token_failure_propagates)
qed

end
